theory Spec2Isabelle
  imports Main
begin

section \<open>The looksy-backend try-on relay\<close>

text \<open>
  The development embeds the request validation, the data-URI parser, the two variants of
  the try-on route handler and the Gemini client with its retry loop.

  JavaScript strings are modelled as \<open>string\<close>: a character stands for one UTF-16 code
  unit below 256, and \<open>length\<close> is the \<open>.length\<close> of the source. Values that arrive as
  JSON are \<open>jsval\<close>; \<open>Undefined\<close> is the value of an absent property. JSON numbers are
  restricted to integers: the code tests a number of a request for truthiness and compares
  it with strings, and never computes with it.
\<close>

subsection \<open>JavaScript values and string primitives\<close>

datatype jsval =
    Undefined
  | Null
  | Bool bool
  | Num int
  | Str string
  | Arr "jsval list"
  | Obj "(string \<times> jsval) list"

fun truthy :: "jsval \<Rightarrow> bool" where
  "truthy Undefined = False"
| "truthy Null = False"
| "truthy (Bool b) = b"
| "truthy (Num n) = (n \<noteq> 0)"
| "truthy (Str s) = (s \<noteq> [])"
| "truthy (Arr xs) = True"
| "truthy (Obj kvs) = True"

text \<open>\<open>a || b\<close> on values.\<close>

definition js_or :: "jsval \<Rightarrow> jsval \<Rightarrow> jsval" where
  "js_or a b = (if truthy a then a else b)"

text \<open>\<open>s.startsWith(p)\<close>, \<open>s.includes(p)\<close> and \<open>s.indexOf(p)\<close> (\<open>None\<close> is \<open>-1\<close>).\<close>

fun startsWith :: "string \<Rightarrow> string \<Rightarrow> bool" where
  "startsWith s [] = True"
| "startsWith [] (p # ps) = False"
| "startsWith (c # cs) (p # ps) = (c = p \<and> startsWith cs ps)"

fun str_includes :: "string \<Rightarrow> string \<Rightarrow> bool" where
  "str_includes [] p = (p = [])"
| "str_includes (c # cs) p = (startsWith (c # cs) p \<or> str_includes cs p)"

fun indexOf :: "string \<Rightarrow> string \<Rightarrow> nat option" where
  "indexOf [] p = (if p = [] then Some 0 else None)"
| "indexOf (c # cs) p =
     (if startsWith (c # cs) p then Some 0 else map_option Suc (indexOf cs p))"

text \<open>
  \<open>s.toLowerCase()\<close> on code units below 256: the letters A to Z and the Latin-1 capitals
  U+00C0 to U+00DE without the multiplication sign U+00D7 move up by 32.
\<close>

definition upper_chars :: "char list" where
  "upper_chars = ''ABCDEFGHIJKLMNOPQRSTUVWXYZ'' @
     [CHR 0xC0, CHR 0xC1, CHR 0xC2, CHR 0xC3, CHR 0xC4, CHR 0xC5, CHR 0xC6, CHR 0xC7,
      CHR 0xC8, CHR 0xC9, CHR 0xCA, CHR 0xCB, CHR 0xCC, CHR 0xCD, CHR 0xCE, CHR 0xCF,
      CHR 0xD0, CHR 0xD1, CHR 0xD2, CHR 0xD3, CHR 0xD4, CHR 0xD5, CHR 0xD6,
      CHR 0xD8, CHR 0xD9, CHR 0xDA, CHR 0xDB, CHR 0xDC, CHR 0xDD, CHR 0xDE]"

definition lower_chars :: "char list" where
  "lower_chars = ''abcdefghijklmnopqrstuvwxyz'' @
     [CHR 0xE0, CHR 0xE1, CHR 0xE2, CHR 0xE3, CHR 0xE4, CHR 0xE5, CHR 0xE6, CHR 0xE7,
      CHR 0xE8, CHR 0xE9, CHR 0xEA, CHR 0xEB, CHR 0xEC, CHR 0xED, CHR 0xEE, CHR 0xEF,
      CHR 0xF0, CHR 0xF1, CHR 0xF2, CHR 0xF3, CHR 0xF4, CHR 0xF5, CHR 0xF6,
      CHR 0xF8, CHR 0xF9, CHR 0xFA, CHR 0xFB, CHR 0xFC, CHR 0xFD, CHR 0xFE]"

definition lower_char :: "char \<Rightarrow> char" where
  "lower_char c = (case map_of (zip upper_chars lower_chars) c of Some d \<Rightarrow> d | None \<Rightarrow> c)"

definition toLowerCase :: "string \<Rightarrow> string" where
  "toLowerCase s = map lower_char s"

text \<open>
  Line terminators, which \<open>.\<close> of a regular expression does not match, and the white
  space that \<open>trim\<close> removes, both below 256.
\<close>

definition lineTerminator :: "char \<Rightarrow> bool" where
  "lineTerminator c = (c = CHR 0x0A \<or> c = CHR 0x0D)"

definition whiteSpace :: "char \<Rightarrow> bool" where
  "whiteSpace c = (c \<in> set [CHR 0x09, CHR 0x0A, CHR 0x0B, CHR 0x0C, CHR 0x0D, CHR 0x20, CHR 0xA0])"

definition dropWhileEnd :: "(char \<Rightarrow> bool) \<Rightarrow> string \<Rightarrow> string" where
  "dropWhileEnd P s = rev (dropWhile P (rev s))"

definition trim :: "string \<Rightarrow> string" where
  "trim s = dropWhileEnd whiteSpace (dropWhile whiteSpace s)"

subsection \<open>Errors\<close>

text \<open>
  Every \<open>throw\<close> of the source is a constructor; \<open>message\<close> is the text of the error, which
  the route handlers search. \<open>FetchRejected\<close> is a rejected \<open>fetch\<close> (a timeout abort or a
  network failure) with the runtime's message, \<open>TypeError\<close> a call of \<open>startsWith\<close> on a
  value that has no such method, with the runtime's message.
\<close>

datatype error =
    InvalidDataUri
  | UnsupportedMime string
  | ImageTooLarge
  | MissingApiKey
  | ApiError nat string
  | NoImageData string
  | FetchRejected string
  | NoResponse
  | TypeError string

fun digit_char :: "nat \<Rightarrow> char" where
  "digit_char n = (''0123456789'' ! (n mod 10))"

function show_nat :: "nat \<Rightarrow> string" where
  "show_nat n = (if n < 10 then [digit_char n] else show_nat (n div 10) @ [digit_char n])"
  by pat_completeness auto
termination
  by (relation "measure id") auto

fun message :: "error \<Rightarrow> string" where
  "message InvalidDataUri = ''Invalid data URI format''"
| "message (UnsupportedMime m) = ''Unsupported mime type: '' @ m"
| "message ImageTooLarge = ''Image too large''"
| "message MissingApiKey = ''Missing GEMINI_API_KEY''"
| "message (ApiError st body) = ''Gemini API error: '' @ show_nat st @ '' '' @ body"
| "message (NoImageData block) =
     (if block \<noteq> [] then ''Gemini API returned no image data (blockReason: '' @ block @ '')''
      else ''Gemini API returned no image data'')"
| "message (FetchRejected m) = m"
| "message NoResponse = ''Failed to get response from Gemini API''"
| "message (TypeError m) = m"

subsection \<open>The data-URI parser\<close>

definition ALLOWED_MIME :: "string list" where
  "ALLOWED_MIME = [''image/jpeg'', ''image/jpg'', ''image/png'', ''image/webp'', ''image/avif'']"

definition MAX_DATAURI_BYTES :: nat where
  "MAX_DATAURI_BYTES = 8 * 1024 * 1024"

definition MAX_REQUEST_SIZE :: nat where
  "MAX_REQUEST_SIZE = 25 * 1024 * 1024"

text \<open>
  \<open>dataUri.match(/^data:([^;]+);base64,(.*)$/)\<close>. The expression is anchored at both ends
  of the input. The first group is a run of characters other than \<open>;\<close> and must be followed
  by \<open>;\<close>, so it is the longest such run after \<open>data:\<close>; it must not be empty. The second
  group is the rest of the input and must be free of line terminators. The result is the
  pair of the two groups.
\<close>

definition match_data_uri :: "string \<Rightarrow> (string \<times> string) option" where
  "match_data_uri s =
     (if startsWith s ''data:'' then
        (let rest = drop 5 s;
             g1 = takeWhile (\<lambda>c. c \<noteq> CHR '';'') rest;
             after = dropWhile (\<lambda>c. c \<noteq> CHR '';'') rest;
             g2 = drop 8 after
         in if g1 \<noteq> [] \<and> startsWith after '';base64,'' \<and> \<not> list_ex lineTerminator g2
            then Some (g1, g2) else None)
      else None)"

record parsed =
  mimeType :: string
  base64 :: string

definition parseDataUri :: "jsval \<Rightarrow> error + parsed" where
  "parseDataUri dataUri =
     (case dataUri of
        Str s \<Rightarrow>
          if s = [] then Inl InvalidDataUri
          else (case match_data_uri s of
                  None \<Rightarrow> Inl InvalidDataUri
                | Some (g1, g2) \<Rightarrow>
                    (let mimeType = toLowerCase g1; base64Data = g2 in
                     if mimeType \<notin> set ALLOWED_MIME then Inl (UnsupportedMime mimeType)
                     else
                       (let approxBytes = (length base64Data * 3) div 4 in
                        if approxBytes > MAX_DATAURI_BYTES then Inl ImageTooLarge
                        else Inr \<lparr>mimeType = mimeType, base64 = base64Data\<rparr>)))
      | _ \<Rightarrow> Inl InvalidDataUri)"

subsection \<open>Configuration, requests and responses\<close>

text \<open>The environment variables the code reads; \<open>None\<close> is an unset variable.\<close>

record env =
  GEMINI_API_KEY :: "string option"
  GEMINI_MODEL :: "string option"
  CHROME_EXTENSION_IDS :: "string option"
  NODE_ENV :: "string option"

record product_context =
  title :: "string option"
  hostname :: "string option"

text \<open>
  The body of a try-on request, one field per property the handlers destructure, and the
  request around it: the \<open>x-mm-extension-id\<close> header (\<open>None\<close> when the header is absent)
  and \<open>bodySize\<close>, the length of \<open>JSON.stringify(req.body)\<close>. The product context is
  typed as the interface documents it.

  The serialised body counts every property of the body, also those no handler reads, so
  its length is not a function of the fields below and is a field of its own. It changes
  with each of them: two requests that differ in one property have two sizes.
\<close>

record tryon_body =
  extensionId :: jsval
  studioId :: jsval
  userImage :: jsval
  overlayData :: jsval
  overlayUrls :: jsval
  productContext :: "product_context option"
  useStudioMode :: jsval
  planType :: jsval

record request =
  body :: tryon_body
  header_extension_id :: "string option"
  bodySize :: nat

text \<open>
  The usage object of a result. The client with the retry loop fills in three of the
  properties; \<open>completionTokens\<close> is there for the other client module of the repository.
\<close>

record usage =
  model :: string
  promptTokens :: nat
  completionTokens :: "nat option"
  totalTokens :: nat

text \<open>
  A response is either \<open>res.status(s).json({error, code, details})\<close> or the success body
  \<open>{ok: true, result, usage}\<close> with status 200.
\<close>

datatype response =
    ErrorJson nat string string "string option"
  | OkJson string usage

fun status_of :: "response \<Rightarrow> nat" where
  "status_of (ErrorJson st err code details) = st"
| "status_of (OkJson result u) = 200"

fun code_of :: "response \<Rightarrow> string" where
  "code_of (ErrorJson st err code details) = code"
| "code_of (OkJson result u) = []"

subsection \<open>The extension allow-list\<close>

text \<open>\<open>s.split(sep)\<close> for a one-character separator: the empty string splits into \<open>['']\<close>.\<close>

fun split_on :: "char \<Rightarrow> string \<Rightarrow> string list" where
  "split_on sep [] = [[]]"
| "split_on sep (c # cs) =
     (if c = sep then [] # split_on sep cs
      else (case split_on sep cs of
              w # ws \<Rightarrow> (c # w) # ws
            | [] \<Rightarrow> [[c]]))"

datatype middleware = Rejected response | Next jsval

text \<open>
  \<open>allowedIds.includes(extensionId)\<close> compares the strings of the list with a value; only
  a string value can be equal to one of them.
\<close>

definition validateExtension :: "env \<Rightarrow> request \<Rightarrow> middleware" where
  "validateExtension e req =
     (let allowedIds = (case CHROME_EXTENSION_IDS e of None \<Rightarrow> [] | Some s \<Rightarrow> split_on (CHR '','') s);
          extId = js_or (extensionId (body req))
                    (case header_extension_id req of None \<Rightarrow> Undefined | Some h \<Rightarrow> Str h)
      in if extId \<notin> set (map Str allowedIds)
         then Rejected (ErrorJson 403 ''Extension not authorized'' ''INVALID_EXTENSION_ID'' None)
         else Next extId)"

subsection \<open>The Gemini client\<close>

text \<open>
  What one call of the external API gives back: the fetch is aborted by the 30 second
  timer, it is rejected for another reason, or it answers. An answer carries the status,
  the body text, and the two places of the parsed body the code reads:
  \<open>json?.candidates?.[0]?.content?.parts || []\<close> and \<open>json?.promptFeedback?.blockReason || ''\<close>.
  Parts are typed as the API documents them; \<open>None\<close> is an absent or null property.
\<close>

record resp_inline =
  i_data :: "string option"
  i_mime_type :: "string option"
  i_mimeType :: "string option"

record resp_part =
  p_inline_data :: "resp_inline option"
  p_inlineData :: "resp_inline option"
  p_text :: "string option"

record api_response =
  status :: nat
  responseText :: string
  partsResp :: "resp_part list"
  blockReason :: string

datatype api_outcome = TimedOut | NetworkError string | Responds api_response

record gen_result =
  dataUrl :: string
  usage :: usage

text \<open>What the world does, in order: the trace of a call.\<close>

datatype event = ReadStudio jsval | FetchOverlay jsval | Delay nat | CallGemini nat

definition maxRetries :: nat where
  "maxRetries = 3"

definition baseDelay :: nat where
  "baseDelay = 1000"

definition estimateTokens :: "string \<Rightarrow> nat" where
  "estimateTokens t = (if t = [] then 0 else (length t + 3) div 4)"

fun join :: "string \<Rightarrow> string list \<Rightarrow> string" where
  "join sep [] = []"
| "join sep [x] = x"
| "join sep (x # y # ys) = x @ sep @ join sep (y # ys)"

definition sysPrompt :: "product_context option \<Rightarrow> string" where
  "sysPrompt pc =
     (let categoryText =
            (case pc of
               None \<Rightarrow> []
             | Some c \<Rightarrow> (case title c of
                            None \<Rightarrow> []
                          | Some t \<Rightarrow> if t \<noteq> [] then ''Product: '' @ t else []))
      in join '' '' (filter (\<lambda>l. l \<noteq> [])
        [''TASK: Virtual clothing try-on. Replace ALL clothing items worn by the person in the first image with the complete outfit/garment shown in the multiple product reference images.'',
         ''REQUIREMENTS:'',
         ''- Use ALL product reference images to understand the garment from different angles, lighting, and details'',
         ''- Replace the entire outfit - ALL clothing pieces visible on the person, not just one item'',
         ''- Combine information from multiple product views for the most accurate color, pattern, texture, and fit'',
         ''- Accurately fit the new garment to the person's body shape and posture'',
         ''- Maintain realistic fabric draping, shadows, and lighting that matches the original scene'',
         ''- Preserve the person's pose, facial features, skin tone, and body proportions exactly'',
         ''- Keep the background completely unchanged'',
         ''- If aspect ratios don't match output size, crop to focus on the person rather than squishing or distorting the image'',
         ''- Ensure the garment details match what is shown across all product reference images'',
         ''- Make the transformation look natural and professionally fitted'',
         categoryText,
         ''OUTPUT: Generate a high-resolution 2K (2048px minimum) image. Return only the modified image as data:image/png;base64,<BASE64> format. Make clear visual changes with maximum detail and quality.'']))"

definition isRetryableError :: "nat \<Rightarrow> bool" where
  "isRetryableError st = (st = 500 \<or> st = 502 \<or> st = 503)"

definition response_ok :: "nat \<Rightarrow> bool" where
  "response_ok st = (200 \<le> st \<and> st \<le> 299)"

text \<open>
  The first loop over the parts. \<open>part?.inline_data || part?.inlineData\<close> takes the
  snake-case object when it is there; \<open>inline?.mime_type || inline?.mimeType\<close> takes the
  snake-case string unless it is absent or empty. A part is taken when its data is a
  non-empty string and the mime type is absent, empty or contains \<open>image/\<close>.
\<close>

definition truthy_str :: "string option \<Rightarrow> bool" where
  "truthy_str v = (case v of None \<Rightarrow> False | Some s \<Rightarrow> s \<noteq> [])"

definition inline_of :: "resp_part \<Rightarrow> resp_inline option" where
  "inline_of part = (case p_inline_data part of Some i \<Rightarrow> Some i | None \<Rightarrow> p_inlineData part)"

definition data_of :: "resp_part \<Rightarrow> string option" where
  "data_of part = (case inline_of part of None \<Rightarrow> None | Some i \<Rightarrow> i_data i)"

definition mime_of :: "resp_part \<Rightarrow> string option" where
  "mime_of part =
     (case inline_of part of
        None \<Rightarrow> None
      | Some i \<Rightarrow> if truthy_str (i_mime_type i) then i_mime_type i else i_mimeType i)"

definition accepts :: "resp_part \<Rightarrow> bool" where
  "accepts part =
     (truthy_str (data_of part) \<and>
      (case mime_of part of
         None \<Rightarrow> True
       | Some m \<Rightarrow> if m \<noteq> [] then str_includes m ''image/'' else True))"

fun extractInline :: "resp_part list \<Rightarrow> string option" where
  "extractInline [] = None"
| "extractInline (part # rest) =
     (case data_of part of
        None \<Rightarrow> extractInline rest
      | Some d \<Rightarrow>
          if accepts part then Some (''data:image/png;base64,'' @ d)
          else extractInline rest)"

text \<open>
  The second loop: the first part whose text contains the literal gives the text from the
  literal on, trimmed, without the trailing run of back-quotes, quotes, closing
  parentheses and closing brackets that \<open>replace(/[`'"\)\]]+$/, '')\<close> removes.
\<close>

definition trailing_junk :: "char \<Rightarrow> bool" where
  "trailing_junk c = (c \<in> set [CHR 0x60, CHR 0x27, CHR 0x22, CHR '')'', CHR '']''])"

fun extractText :: "resp_part list \<Rightarrow> string option" where
  "extractText [] = None"
| "extractText (part # rest) =
     (case p_text part of
        None \<Rightarrow> extractText rest
      | Some t \<Rightarrow>
          if t = [] then extractText rest
          else (case indexOf t ''data:image/png;base64,'' of
                  None \<Rightarrow> extractText rest
                | Some idx \<Rightarrow>
                    (let candidate = trim (drop idx t);
                         clean = dropWhileEnd trailing_junk candidate
                     in Some clean)))"

text \<open>
  The body of the \<open>try\<close> block after the fetch, for one attempt: it returns a result,
  leaves by \<open>continue\<close> with the error it stored in \<open>lastError\<close>, or throws into the
  \<open>catch\<close> block of the same iteration.
\<close>

datatype completion = Returned gen_result | Continued error | Thrown error

definition mk_result :: "string \<Rightarrow> string \<Rightarrow> string \<Rightarrow> gen_result" where
  "mk_result mdl prompt url =
     \<lparr>dataUrl = url,
      usage = \<lparr>model = mdl, promptTokens = estimateTokens prompt, completionTokens = None,
               totalTokens = estimateTokens prompt\<rparr>\<rparr>"

definition attempt_body :: "string \<Rightarrow> string \<Rightarrow> nat \<Rightarrow> api_outcome \<Rightarrow> completion" where
  "attempt_body mdl prompt attempt out =
     (case out of
        TimedOut \<Rightarrow> Thrown (FetchRejected ''This operation was aborted'')
      | NetworkError m \<Rightarrow> Thrown (FetchRejected m)
      | Responds r \<Rightarrow>
          if \<not> response_ok (status r) then
            (if isRetryableError (status r) \<and> attempt < maxRetries
             then Continued (ApiError (status r) (responseText r))
             else Thrown (ApiError (status r) (responseText r)))
          else
            (case extractInline (partsResp r) of
               Some url \<Rightarrow> Returned (mk_result mdl prompt url)
             | None \<Rightarrow>
                 (case extractText (partsResp r) of
                    Some url \<Rightarrow> Returned (mk_result mdl prompt url)
                  | None \<Rightarrow> Thrown (NoImageData (blockReason r)))))"

text \<open>
  The retry loop from iteration \<open>attempt\<close> on. The delay comes first inside the \<open>try\<close>
  block, then the call. A \<open>continue\<close> goes to the next iteration; so does the \<open>catch\<close>
  block, which rethrows only in the last iteration. After the loop stands
  \<open>throw lastError || new Error(...)\<close>.
\<close>

function attempts ::
  "string \<Rightarrow> string \<Rightarrow> (nat \<Rightarrow> api_outcome) \<Rightarrow> nat \<Rightarrow> error option \<Rightarrow> (error + gen_result) \<times> event list"
where
  "attempts mdl prompt api attempt lastError =
     (if attempt \<le> maxRetries then
        (let evs = (if attempt > 1 then [Delay (baseDelay * 2 ^ (attempt - 1))] else [])
                     @ [CallGemini attempt]
         in case attempt_body mdl prompt attempt (api attempt) of
              Returned r \<Rightarrow> (Inr r, evs)
            | Continued err \<Rightarrow>
                (case attempts mdl prompt api (Suc attempt) (Some err) of
                   (res, later) \<Rightarrow> (res, evs @ later))
            | Thrown err \<Rightarrow>
                if attempt = maxRetries then (Inl err, evs)
                else (case attempts mdl prompt api (Suc attempt) (Some err) of
                        (res, later) \<Rightarrow> (res, evs @ later)))
      else (Inl (case lastError of Some err \<Rightarrow> err | None \<Rightarrow> NoResponse), []))"
  by pat_completeness auto
termination
  by (relation "measure (\<lambda>(mdl, prompt, api, attempt, lastError). Suc maxRetries - attempt)") auto

declare attempts.simps [simp del]

definition model_name :: "env \<Rightarrow> string" where
  "model_name e =
     (case GEMINI_MODEL e of
        None \<Rightarrow> ''gemini-2.5-flash-image-preview''
      | Some m \<Rightarrow> if m \<noteq> [] then m else ''gemini-2.5-flash-image-preview'')"

definition generateOverlayedImage ::
  "env \<Rightarrow> (nat \<Rightarrow> api_outcome) \<Rightarrow> product_context option \<Rightarrow> (error + gen_result) \<times> event list" where
  "generateOverlayedImage e api pc =
     (if \<not> truthy_str (GEMINI_API_KEY e) then (Inl MissingApiKey, [])
      else attempts (model_name e) (sysPrompt pc) api 1 None)"

text \<open>The delays of a trace, added up, and its API calls, counted.\<close>

fun total_delay :: "event list \<Rightarrow> nat" where
  "total_delay [] = 0"
| "total_delay (Delay ms # evs) = ms + total_delay evs"
| "total_delay (ev # evs) = total_delay evs"

fun api_calls :: "event list \<Rightarrow> nat" where
  "api_calls [] = 0"
| "api_calls (CallGemini n # evs) = Suc (api_calls evs)"
| "api_calls (ev # evs) = api_calls evs"

subsection \<open>The try-on route\<close>

text \<open>
  The world of one request: the studio image on disk for a studio id (its content in
  base64, \<open>None\<close> when the file cannot be read), what fetching an overlay URL gives, and what
  the external API answers to the n-th call.
\<close>

datatype fetch_outcome = FetchThrows | FetchResponds nat "string option" string

record world =
  studioFile :: "jsval \<Rightarrow> string option"
  fetchOverlay :: "jsval \<Rightarrow> fetch_outcome"
  gemini :: "nat \<Rightarrow> api_outcome"

text \<open>The object \<open>{inlineData: {mimeType, data}}\<close> that is sent to the API.\<close>

record inline_part =
  ip_mimeType :: string
  ip_data :: string

definition toInlinePart :: "parsed \<Rightarrow> inline_part" where
  "toInlinePart p = \<lparr>ip_mimeType = mimeType p, ip_data = base64 p\<rparr>"

text \<open>\<open>Array.isArray(v) && v.length\<close>: the elements of a non-empty array.\<close>

definition nonempty_array :: "jsval \<Rightarrow> jsval list option" where
  "nonempty_array v = (case v of Arr xs \<Rightarrow> if xs \<noteq> [] then Some xs else None | _ \<Rightarrow> None)"

text \<open>\<open>.filter(Boolean)\<close> on a list of objects and nulls.\<close>

fun filter_Boolean :: "'a option list \<Rightarrow> 'a list" where
  "filter_Boolean [] = []"
| "filter_Boolean (None # xs) = filter_Boolean xs"
| "filter_Boolean (Some x # xs) = x # filter_Boolean xs"

text \<open>The callback of the map over \<open>overlayData\<close>: a parse error is caught and gives null.\<close>

definition decodeOne :: "jsval \<Rightarrow> inline_part option" where
  "decodeOne dataUri =
     (case parseDataUri dataUri of Inl err \<Rightarrow> None | Inr p \<Rightarrow> Some (toInlinePart p))"

text \<open>
  The callback of the map over \<open>overlayUrls\<close>: any failure gives null. The mime type is
  the content type up to the first \<open>;\<close>, which is \<open>split(';')[0]\<close>.
\<close>

definition fetchOne :: "world \<Rightarrow> jsval \<Rightarrow> inline_part option" where
  "fetchOne w url =
     (case fetchOverlay w url of
        FetchThrows \<Rightarrow> None
      | FetchResponds st ct buffer \<Rightarrow>
          if \<not> response_ok st then None
          else
            (let header = (case ct of None \<Rightarrow> ''image/jpeg''
                           | Some c \<Rightarrow> if c \<noteq> [] then c else ''image/jpeg'');
                 mt = takeWhile (\<lambda>c. c \<noteq> CHR '';'') header
             in if mt \<notin> set ALLOWED_MIME then None
                else Some \<lparr>ip_mimeType = mt, ip_data = buffer\<rparr>))"

definition resolveOverlays :: "world \<Rightarrow> tryon_body \<Rightarrow> inline_part list \<times> event list" where
  "resolveOverlays w b =
     (case nonempty_array (overlayData b) of
        Some ds \<Rightarrow> (filter_Boolean (map decodeOne (take 3 ds)), [])
      | None \<Rightarrow>
          (case nonempty_array (overlayUrls b) of
             Some us \<Rightarrow>
               (filter_Boolean (map (fetchOne w) (take 3 us)), map FetchOverlay (take 3 us))
           | None \<Rightarrow> ([], [])))"

text \<open>The studio mode of the main handler: the stored image replaces the user image.\<close>

definition studio_image :: "world \<Rightarrow> tryon_body \<Rightarrow> jsval \<times> event list" where
  "studio_image w b =
     (if truthy (useStudioMode b) \<and> truthy (studioId b) then
        (case studioFile w (studioId b) of
           Some content \<Rightarrow> (Str (''data:image/jpeg;base64,'' @ content), [ReadStudio (studioId b)])
         | None \<Rightarrow> (userImage b, [ReadStudio (studioId b)]))
      else (userImage b, []))"

text \<open>
  \<open>v?.startsWith('data:')\<close>: undefined for an absent or null value, a type error for a
  value that is not a string.
\<close>

definition starts_with_data :: "string \<Rightarrow> jsval \<Rightarrow> error + bool" where
  "starts_with_data name v =
     (case v of
        Undefined \<Rightarrow> Inr False
      | Null \<Rightarrow> Inr False
      | Str s \<Rightarrow> Inr (startsWith s ''data:'')
      | _ \<Rightarrow> Inl (TypeError (name @ ''?.startsWith is not a function'')))"

definition tryon_catch :: "env \<Rightarrow> error \<Rightarrow> response" where
  "tryon_catch e err =
     (let msg = message err in
      if str_includes msg ''Image too large'' then
        ErrorJson 413 ''Image too large. Please try a smaller image.'' ''IMAGE_TOO_LARGE'' None
      else if str_includes msg ''Unsupported mime'' \<or> str_includes msg ''Invalid data URI'' then
        ErrorJson 422 ''Invalid image format. Please use JPG, PNG, or WebP images.''
          ''INVALID_IMAGE_FORMAT'' None
      else if str_includes msg ''Missing GEMINI_API_KEY'' then
        ErrorJson 500 ''AI service not configured. Please contact support.''
          ''SERVICE_UNAVAILABLE'' None
      else if str_includes msg ''quota'' \<or> str_includes msg ''rate limit'' then
        ErrorJson 429 ''Service temporarily at capacity. Please try again in a moment.''
          ''RATE_LIMITED'' None
      else
        ErrorJson 500 ''AI generation temporarily unavailable. Please try again.''
          ''GENERATION_FAILED''
          (if NODE_ENV e = Some ''development'' then Some msg else None))"

text \<open>
  \<open>generateOverlayedImage\<close> as a handler sees it: a function of the user part, the overlay
  parts, the product context and the mode. The end of both handlers, from the check of the
  resolved overlays on, takes it as a parameter.
\<close>

type_synonym generator =
  "inline_part \<Rightarrow> inline_part list \<Rightarrow> product_context option \<Rightarrow> string
     \<Rightarrow> (error + gen_result) \<times> event list"

definition aiMode_of :: "jsval \<Rightarrow> string" where
  "aiMode_of pt = (if pt = Str ''unlimited'' then ''accurate'' else ''fast'')"

definition generate_step ::
  "generator \<Rightarrow> tryon_body \<Rightarrow> inline_part \<Rightarrow> inline_part list \<Rightarrow> (error + response) \<times> event list" where
  "generate_step gen b userInlinePart overlayInlineParts =
     (if overlayInlineParts = [] then
        (Inr (ErrorJson 422 ''No valid overlay images provided'' ''NO_OVERLAY_IMAGES'' None), [])
      else
        (case gen userInlinePart overlayInlineParts (productContext b) (aiMode_of (planType b)) of
           (Inl err, evs) \<Rightarrow> (Inl err, evs)
         | (Inr r, evs) \<Rightarrow> (Inr (OkJson (dataUrl r) (usage r)), evs)))"

text \<open>
  The main server requires the client with the retry loop; the outcome of its calls is
  the \<open>gemini\<close> of the world.
\<close>

definition gemini_client :: "env \<Rightarrow> world \<Rightarrow> generator" where
  "gemini_client e w userInlinePart overlayInlineParts pc aiMode =
     generateOverlayedImage e (gemini w) pc"

text \<open>The \<open>try\<close> block of the main handler; \<open>Inl\<close> is an error thrown into its \<open>catch\<close>.\<close>

definition tryon_try :: "env \<Rightarrow> world \<Rightarrow> request \<Rightarrow> (error + response) \<times> event list" where
  "tryon_try e w req =
     (if bodySize req > MAX_REQUEST_SIZE then
        (Inr (ErrorJson 413 ''Request too large'' ''REQUEST_TOO_LARGE'' None), [])
      else
        (case studio_image w (body req) of
           (actualUserImage, ev1) \<Rightarrow>
             (case starts_with_data ''actualUserImage'' actualUserImage of
                Inl err \<Rightarrow> (Inl err, ev1)
              | Inr False \<Rightarrow>
                  (Inr (ErrorJson 400 ''userImage must be a data URI'' ''INVALID_USER_IMAGE'' None), ev1)
              | Inr True \<Rightarrow>
                  (case parseDataUri actualUserImage of
                     Inl err \<Rightarrow> (Inl err, ev1)
                   | Inr userParsed \<Rightarrow>
                       (case resolveOverlays w (body req) of
                          (overlayInlineParts, ev2) \<Rightarrow>
                            (case generate_step (gemini_client e w) (body req)
                                    (toInlinePart userParsed) overlayInlineParts of
                               (res, ev3) \<Rightarrow> (res, ev1 @ ev2 @ ev3)))))))"

definition tryon :: "env \<Rightarrow> world \<Rightarrow> request \<Rightarrow> response \<times> event list" where
  "tryon e w req =
     (case tryon_try e w req of
        (Inl err, evs) \<Rightarrow> (tryon_catch e err, evs)
      | (Inr resp, evs) \<Rightarrow> (resp, evs))"

text \<open>The route: the middleware first, the handler only after \<open>next()\<close>.\<close>

definition tryon_route :: "env \<Rightarrow> world \<Rightarrow> request \<Rightarrow> response \<times> event list" where
  "tryon_route e w req =
     (case validateExtension e req of
        Rejected resp \<Rightarrow> (resp, [])
      | Next extId \<Rightarrow> tryon e w req)"

subsection \<open>The second variant of the server\<close>

text \<open>
  The second server file has the same middleware and parser. Its handler has no size
  check and no studio mode, maps \<open>overlayData\<close> through \<open>parseDataUri\<close> without a \<open>try\<close>
  around it, and answers errors with their own message. The repository holds two modules
  named \<open>services/gemini\<close>; the one this file requires is the parameter \<open>gen\<close>.
\<close>

fun parse_all :: "jsval list \<Rightarrow> error + inline_part list" where
  "parse_all [] = Inr []"
| "parse_all (d # ds) =
     (case parseDataUri d of
        Inl err \<Rightarrow> Inl err
      | Inr p \<Rightarrow> (case parse_all ds of
                    Inl err \<Rightarrow> Inl err
                  | Inr ps \<Rightarrow> Inr (toInlinePart p # ps)))"

definition resolveOverlays_simple ::
  "world \<Rightarrow> tryon_body \<Rightarrow> (error + inline_part list) \<times> event list" where
  "resolveOverlays_simple w b =
     (case nonempty_array (overlayData b) of
        Some ds \<Rightarrow> (parse_all (take 3 ds), [])
      | None \<Rightarrow>
          (case nonempty_array (overlayUrls b) of
             Some us \<Rightarrow>
               (Inr (filter_Boolean (map (fetchOne w) (take 3 us))), map FetchOverlay (take 3 us))
           | None \<Rightarrow> (Inr [], [])))"

definition tryon_simple_catch :: "env \<Rightarrow> error \<Rightarrow> response" where
  "tryon_simple_catch e err =
     (let msg = message err in
      if str_includes msg ''Image too large'' then ErrorJson 413 msg ''IMAGE_TOO_LARGE'' None
      else if str_includes msg ''Unsupported mime'' \<or> str_includes msg ''Invalid data URI'' then
        ErrorJson 400 msg ''INVALID_IMAGE_FORMAT'' None
      else
        ErrorJson 500 ''Internal server error'' ''GENERATION_FAILED''
          (if NODE_ENV e = Some ''development'' then Some msg else None))"

definition tryon_simple_try ::
  "generator \<Rightarrow> world \<Rightarrow> request \<Rightarrow> (error + response) \<times> event list" where
  "tryon_simple_try gen w req =
     (case starts_with_data ''userImage'' (userImage (body req)) of
        Inl err \<Rightarrow> (Inl err, [])
      | Inr False \<Rightarrow>
          (Inr (ErrorJson 400 ''userImage must be a data URI'' ''INVALID_USER_IMAGE'' None), [])
      | Inr True \<Rightarrow>
          (case parseDataUri (userImage (body req)) of
             Inl err \<Rightarrow> (Inl err, [])
           | Inr userParsed \<Rightarrow>
               (case resolveOverlays_simple w (body req) of
                  (Inl err, ev2) \<Rightarrow> (Inl err, ev2)
                | (Inr overlayInlineParts, ev2) \<Rightarrow>
                    (case generate_step gen (body req) (toInlinePart userParsed)
                            overlayInlineParts of
                       (res, ev3) \<Rightarrow> (res, ev2 @ ev3)))))"

definition tryon_simple ::
  "env \<Rightarrow> generator \<Rightarrow> world \<Rightarrow> request \<Rightarrow> response \<times> event list" where
  "tryon_simple e gen w req =
     (case tryon_simple_try gen w req of
        (Inl err, evs) \<Rightarrow> (tryon_simple_catch e err, evs)
      | (Inr resp, evs) \<Rightarrow> (resp, evs))"

subsection \<open>Sample values\<close>

text \<open>
  A configuration and some answers of the external API, for the concrete runs below: an
  answer with one inline image that is declared as JPEG under the camel-case names, an
  answer without parts, and error answers with a plain-text body.
\<close>

definition sample_env :: env where
  "sample_env =
     \<lparr>GEMINI_API_KEY = Some ''test-key'', GEMINI_MODEL = None,
      CHROME_EXTENSION_IDS = Some ''gphnamdjcdhpmfeongphlidjlahkjafk'',
      NODE_ENV = Some ''production''\<rparr>"

definition image_part :: resp_part where
  "image_part =
     \<lparr>p_inline_data = None,
      p_inlineData = Some \<lparr>i_data = Some ''iVBORw0KGgo='', i_mime_type = None,
                            i_mimeType = Some ''image/jpeg''\<rparr>,
      p_text = None\<rparr>"

definition image_response :: api_response where
  \<open>image_response =
     \<lparr>status = 200,
      responseText = ''{"candidates":[{"content":{"parts":[{"inlineData":{"mimeType":"image/jpeg","data":"iVBORw0KGgo="}}]}}]}'',
      partsResp = [image_part], blockReason = []\<rparr>\<close>

definition empty_response :: api_response where
  \<open>empty_response =
     \<lparr>status = 200, responseText = ''{"candidates":[{"content":{"parts":[]}}]}'',
      partsResp = [], blockReason = []\<rparr>\<close>

definition error_response :: "nat \<Rightarrow> string \<Rightarrow> api_response" where
  "error_response st t = \<lparr>status = st, responseText = t, partsResp = [], blockReason = []\<rparr>"

definition api_400_then_image :: "nat \<Rightarrow> api_outcome" where
  "api_400_then_image n =
     (if n = 1 then Responds (error_response 400 ''Bad Request'') else Responds image_response)"

definition api_empty_then_image :: "nat \<Rightarrow> api_outcome" where
  "api_empty_then_image n = (if n = 1 then Responds empty_response else Responds image_response)"

definition api_503_503_image :: "nat \<Rightarrow> api_outcome" where
  "api_503_503_image n =
     (if n < 3 then Responds (error_response 503 ''Service Unavailable'')
      else Responds image_response)"

text \<open>
  Requests: a world in which every overlay URL answers with a PNG and the API answers with
  the image; a request whose only inline overlay is not a data URI, next to a URL; the same
  request with an empty \<open>overlayData\<close>; a request whose second inline overlay is not a data
  URI; and a request with an empty body and an empty \<open>x-mm-extension-id\<close> header.
\<close>

definition sample_world :: world where
  "sample_world =
     \<lparr>studioFile = (\<lambda>sid. None),
      fetchOverlay = (\<lambda>url. FetchResponds 200 (Some ''image/png'') ''iVBORw0KGgo=''),
      gemini = (\<lambda>n. Responds image_response)\<rparr>"

definition blank_body :: tryon_body where
  "blank_body =
     \<lparr>extensionId = Undefined, studioId = Undefined, userImage = Undefined,
      overlayData = Undefined, overlayUrls = Undefined, productContext = None,
      useStudioMode = Undefined, planType = Undefined\<rparr>"

definition request_bad_overlay :: request where
  "request_bad_overlay =
     \<lparr>body = blank_body
        \<lparr>extensionId := Str ''gphnamdjcdhpmfeongphlidjlahkjafk'',
         userImage := Str ''data:image/jpeg;base64,/9j/4AAQ'',
         overlayData := Arr [Str ''not a data uri''],
         overlayUrls := Arr [Str ''https://shop.example/p.png'']\<rparr>,
      header_extension_id = None, bodySize = 174\<rparr>"

definition request_urls_only :: request where
  "request_urls_only =
     \<lparr>body = blank_body
        \<lparr>extensionId := Str ''gphnamdjcdhpmfeongphlidjlahkjafk'',
         userImage := Str ''data:image/jpeg;base64,/9j/4AAQ'',
         overlayData := Arr [],
         overlayUrls := Arr [Str ''https://shop.example/p.png'']\<rparr>,
      header_extension_id = None, bodySize = 158\<rparr>"

definition request_one_bad_overlay :: request where
  "request_one_bad_overlay =
     \<lparr>body = blank_body
        \<lparr>extensionId := Str ''gphnamdjcdhpmfeongphlidjlahkjafk'',
         userImage := Str ''data:image/jpeg;base64,/9j/4AAQ'',
         overlayData := Arr [Str ''data:image/png;base64,iVBORw0KGgo='', Str ''not a data uri'']\<rparr>,
      header_extension_id = None, bodySize = 166\<rparr>"

definition request_empty_id :: request where
  "request_empty_id = \<lparr>body = blank_body, header_extension_id = Some [], bodySize = 2\<rparr>"

section \<open>Properties of the data-URI parser\<close>

lemma lower_char_semicolon: "lower_char c = CHR '';'' \<longleftrightarrow> c = CHR '';''"
  by (simp add: lower_char_def upper_chars_def lower_chars_def)

lemma toLowerCase_semicolon: "CHR '';'' \<in> set (toLowerCase m) \<longleftrightarrow> CHR '';'' \<in> set m"
proof -
  have "(CHR '';'' = lower_char c) = (c = CHR '';'')" for c
    using lower_char_semicolon [of c] by auto
  then show ?thesis
    by (induction m) (auto simp: toLowerCase_def)
qed

lemma allowed_no_semicolon: "x \<in> set ALLOWED_MIME \<Longrightarrow> CHR '';'' \<notin> set x \<and> x \<noteq> []"
  by (auto simp: ALLOWED_MIME_def)

lemma lower_allowed_shape:
  assumes "toLowerCase m \<in> set ALLOWED_MIME"
  shows "CHR '';'' \<notin> set m" and "m \<noteq> []"
  using allowed_no_semicolon [OF assms] toLowerCase_semicolon [of m]
  by (auto simp: toLowerCase_def)

lemma allowed_is_lower: "x \<in> set ALLOWED_MIME \<Longrightarrow> toLowerCase x = x"
  by (auto simp: ALLOWED_MIME_def toLowerCase_def lower_char_def upper_chars_def lower_chars_def)

text \<open>The strings the pattern matches are exactly those of the documented shape.\<close>

lemma match_data_uri_shape:
  assumes "m \<noteq> []" and "CHR '';'' \<notin> set m" and "\<not> list_ex lineTerminator p"
  shows "match_data_uri (''data:'' @ m @ '';base64,'' @ p) = Some (m, p)"
proof -
  have tw: "takeWhile (\<lambda>c. c \<noteq> CHR '';'') (m @ CHR '';'' # t) = m" for t
    using assms(2) by (induction m) auto
  have dw: "dropWhile (\<lambda>c. c \<noteq> CHR '';'') (m @ CHR '';'' # t) = CHR '';'' # t" for t
    using assms(2) by (induction m) auto
  show ?thesis
    using assms(1,3) by (simp add: match_data_uri_def Let_def tw dw)
qed

lemma startsWith_iff: "startsWith s p \<longleftrightarrow> (\<exists>t. s = p @ t)"
  by (induction s p rule: startsWith.induct) auto

lemma match_data_uri_Some:
  assumes "match_data_uri s = Some (m, p)"
  shows "s = ''data:'' @ m @ '';base64,'' @ p \<and> m \<noteq> [] \<and> CHR '';'' \<notin> set m
           \<and> \<not> list_ex lineTerminator p"
proof -
  from assms have sw: "startsWith s ''data:''"
    by (auto simp: match_data_uri_def split: if_splits)
  then obtain rest where s: "s = ''data:'' @ rest"
    using startsWith_iff by blast
  define after where "after = dropWhile (\<lambda>c. c \<noteq> CHR '';'') rest"
  from assms s have m: "m = takeWhile (\<lambda>c. c \<noteq> CHR '';'') rest" and p: "p = drop 8 after"
    and ne: "m \<noteq> []" and aft: "startsWith after '';base64,''" and lt: "\<not> list_ex lineTerminator p"
    by (auto simp: match_data_uri_def Let_def after_def split: if_splits)
  from aft obtain t where t: "after = '';base64,'' @ t"
    using startsWith_iff by blast
  with p have "p = t" by simp
  have "rest = m @ after"
    by (simp add: m after_def)
  moreover have "CHR '';'' \<notin> set m"
    unfolding m by (auto dest: set_takeWhileD)
  ultimately show ?thesis
    using s t \<open>p = t\<close> ne lt by simp
qed

lemma parseDataUri_shape:
  assumes "m \<noteq> []" and "CHR '';'' \<notin> set m" and "\<not> list_ex lineTerminator p"
  shows "parseDataUri (Str (''data:'' @ m @ '';base64,'' @ p)) =
     (if toLowerCase m \<notin> set ALLOWED_MIME then Inl (UnsupportedMime (toLowerCase m))
      else if (length p * 3) div 4 > MAX_DATAURI_BYTES then Inl ImageTooLarge
      else Inr \<lparr>mimeType = toLowerCase m, base64 = p\<rparr>)"
  using match_data_uri_shape [OF assms]
  by (simp add: parseDataUri_def Let_def)

lemmas parse_eval =
  parseDataUri_def match_data_uri_def toLowerCase_def lower_char_def upper_chars_def
  lower_chars_def ALLOWED_MIME_def MAX_DATAURI_BYTES_def lineTerminator_def Let_def

text \<open>
  C3, as the code has it. The mime type is checked before the size: an input of the
  documented shape whose estimated size exceeds 8 MiB fails with \<open>Image too large\<close> when
  its mime type is on the allow-list, and with \<open>Unsupported mime type\<close> otherwise.
\<close>

theorem oversized_payload_rejected:
  assumes "m \<noteq> []" and "CHR '';'' \<notin> set m" and "\<not> list_ex lineTerminator p"
    and "(length p * 3) div 4 > MAX_DATAURI_BYTES"
  shows "parseDataUri (Str (''data:'' @ m @ '';base64,'' @ p)) =
     (if toLowerCase m \<in> set ALLOWED_MIME then Inl ImageTooLarge
      else Inl (UnsupportedMime (toLowerCase m)))"
  using parseDataUri_shape [OF assms(1-3)] assms(4) by simp

theorem oversized_payload_rejected_witness:
  "parseDataUri (Str (''data:image/png;base64,'' @ replicate 11184812 (CHR ''A''))) = Inl ImageTooLarge"
  using oversized_payload_rejected [of "''image/png''" "replicate 11184812 (CHR ''A'')"]
  by (simp add: list_ex_iff lineTerminator_def MAX_DATAURI_BYTES_def ALLOWED_MIME_def
        toLowerCase_def lower_char_def upper_chars_def lower_chars_def)

text \<open>
  C3 as stated fails: a payload estimated above 8 MiB under a mime type outside the
  allow-list is answered with the mime error, not with the size error.
\<close>

theorem oversized_unlisted_mime_counterexample:
  "(length (replicate 11184812 (CHR ''A'')) * 3) div 4 > MAX_DATAURI_BYTES \<and>
   parseDataUri (Str (''data:text/plain;base64,'' @ replicate 11184812 (CHR ''A'')))
     = Inl (UnsupportedMime ''text/plain'') \<and>
   parseDataUri (Str (''data:text/plain;base64,'' @ replicate 11184812 (CHR ''A'')))
     \<noteq> Inl ImageTooLarge"
proof -
  have "parseDataUri (Str (''data:'' @ ''text/plain'' @ '';base64,'' @ replicate 11184812 (CHR ''A'')))
          = Inl (UnsupportedMime ''text/plain'')"
    by (subst parseDataUri_shape)
       (simp_all add: list_ex_iff lineTerminator_def ALLOWED_MIME_def
          toLowerCase_def lower_char_def upper_chars_def lower_chars_def)
  then show ?thesis
    by (simp add: MAX_DATAURI_BYTES_def)
qed

text \<open>
  C5, as the code has it. An input of the documented shape with an allow-listed mime type
  (compared in lower case) and an estimated size of at most 8 MiB parses; the result holds
  the mime type in lower case and the payload as written.
\<close>

theorem valid_data_uri_parses:
  assumes "toLowerCase m \<in> set ALLOWED_MIME" and "\<not> list_ex lineTerminator p"
    and "(length p * 3) div 4 \<le> MAX_DATAURI_BYTES"
  shows "parseDataUri (Str (''data:'' @ m @ '';base64,'' @ p)) =
           Inr \<lparr>mimeType = toLowerCase m, base64 = p\<rparr>"
  using parseDataUri_shape [OF lower_allowed_shape(2) [OF assms(1)]
          lower_allowed_shape(1) [OF assms(1)] assms(2)] assms(1,3)
  by simp

theorem valid_data_uri_parses_witness:
  "parseDataUri (Str ''data:image/WebP;base64,UklGRg=='') =
     Inr \<lparr>mimeType = ''image/webp'', base64 = ''UklGRg==''\<rparr>"
  using valid_data_uri_parses [of "''image/WebP''" "''UklGRg==''"]
  by (simp add: list_ex_iff lineTerminator_def MAX_DATAURI_BYTES_def ALLOWED_MIME_def
        toLowerCase_def lower_char_def upper_chars_def lower_chars_def)

text \<open>
  C5 as stated fails: the mime type comes back in lower case, not as written.
\<close>

theorem mime_as_written_counterexample:
  "parseDataUri (Str ''data:IMAGE/PNG;base64,AAAA'') =
     Inr \<lparr>mimeType = ''image/png'', base64 = ''AAAA''\<rparr> \<and>
   parseDataUri (Str ''data:IMAGE/PNG;base64,AAAA'') \<noteq>
     Inr \<lparr>mimeType = ''IMAGE/PNG'', base64 = ''AAAA''\<rparr>"
  by (simp add: parse_eval)

text \<open>
  C8. A data URI with an allow-listed mime type and an empty payload parses, to the mime
  type and the empty string.
\<close>

theorem empty_payload_accepted:
  assumes "toLowerCase m \<in> set ALLOWED_MIME"
  shows "parseDataUri (Str (''data:'' @ m @ '';base64,'')) =
           Inr \<lparr>mimeType = toLowerCase m, base64 = []\<rparr>"
  using parseDataUri_shape [OF lower_allowed_shape(2) [OF assms]
          lower_allowed_shape(1) [OF assms], of "[]"] assms
  by (simp add: MAX_DATAURI_BYTES_def)

theorem empty_payload_accepted_witness:
  "parseDataUri (Str ''data:image/png;base64,'') = Inr \<lparr>mimeType = ''image/png'', base64 = []\<rparr>"
  using empty_payload_accepted [of "''image/png''"]
  by (simp add: ALLOWED_MIME_def toLowerCase_def lower_char_def upper_chars_def lower_chars_def)

section \<open>Properties of the Gemini client\<close>

subsection \<open>The retry loop, unrolled\<close>

lemma attempts_past:
  "attempt > maxRetries \<Longrightarrow>
   attempts mdl p api attempt le = (Inl (case le of Some err \<Rightarrow> err | None \<Rightarrow> NoResponse), [])"
  by (subst attempts.simps) simp

lemma attempts_3:
  "attempts mdl p api 3 le =
     (case attempt_body mdl p 3 (api 3) of
        Returned r \<Rightarrow> (Inr r, [Delay 4000, CallGemini 3])
      | Continued err \<Rightarrow> (Inl err, [Delay 4000, CallGemini 3])
      | Thrown err \<Rightarrow> (Inl err, [Delay 4000, CallGemini 3]))"
  by (subst attempts.simps)
     (simp add: maxRetries_def baseDelay_def attempts_past split: completion.splits)

lemma attempts_2:
  "attempts mdl p api 2 le =
     (case attempt_body mdl p 2 (api 2) of
        Returned r \<Rightarrow> (Inr r, [Delay 2000, CallGemini 2])
      | Continued err \<Rightarrow>
          (fst (attempts mdl p api 3 (Some err)),
           [Delay 2000, CallGemini 2] @ snd (attempts mdl p api 3 (Some err)))
      | Thrown err \<Rightarrow>
          (fst (attempts mdl p api 3 (Some err)),
           [Delay 2000, CallGemini 2] @ snd (attempts mdl p api 3 (Some err))))"
  by (subst attempts.simps)
     (simp add: maxRetries_def baseDelay_def split: completion.splits prod.splits)

lemma attempts_1:
  "attempts mdl p api 1 le =
     (case attempt_body mdl p 1 (api 1) of
        Returned r \<Rightarrow> (Inr r, [CallGemini 1])
      | Continued err \<Rightarrow>
          (fst (attempts mdl p api 2 (Some err)),
           [CallGemini 1] @ snd (attempts mdl p api 2 (Some err)))
      | Thrown err \<Rightarrow>
          (fst (attempts mdl p api 2 (Some err)),
           [CallGemini 1] @ snd (attempts mdl p api 2 (Some err))))"
  by (subst attempts.simps)
     (simp add: maxRetries_def baseDelay_def del: One_nat_def
        split: completion.splits prod.splits)

text \<open>The loop makes at most three calls, whatever the API answers.\<close>

lemma api_calls_attempts_3: "api_calls (snd (attempts mdl p api 3 le)) = 1"
  by (simp add: attempts_3 split: completion.splits)

lemma api_calls_attempts_2: "api_calls (snd (attempts mdl p api 2 le)) \<le> 2"
  by (simp add: attempts_2 api_calls_attempts_3 split: completion.splits)

lemma api_calls_attempts_1: "api_calls (snd (attempts mdl p api 1 le)) \<le> 3"
proof (cases "attempt_body mdl p 1 (api 1)")
  case (Returned r)
  then show ?thesis by (simp add: attempts_1 del: One_nat_def)
next
  case (Continued err)
  then show ?thesis
    using api_calls_attempts_2 [of mdl p api "Some err"]
    by (simp add: attempts_1 del: One_nat_def)
next
  case (Thrown err)
  then show ?thesis
    using api_calls_attempts_2 [of mdl p api "Some err"]
    by (simp add: attempts_1 del: One_nat_def)
qed

lemma at_most_three_calls: "api_calls (snd (generateOverlayedImage e api pc)) \<le> 3"
  using api_calls_attempts_1 by (simp add: generateOverlayedImage_def del: One_nat_def)

text \<open>
  What an attempt does with an answer: a status outside 200 to 299 is an error, thrown in
  the last iteration and for a status other than 500, 502 and 503.
\<close>

lemma attempt_body_error_status:
  "\<not> response_ok (status r) \<Longrightarrow>
   attempt_body mdl p k (Responds r) =
     (if isRetryableError (status r) \<and> k < maxRetries
      then Continued (ApiError (status r) (responseText r))
      else Thrown (ApiError (status r) (responseText r)))"
  by (simp add: attempt_body_def)

lemma attempt_body_image:
  "response_ok (status r) \<Longrightarrow>
   (case extractInline (partsResp r) of Some u \<Rightarrow> Some u | None \<Rightarrow> extractText (partsResp r))
      = Some url \<Longrightarrow>
   attempt_body mdl p k (Responds r) = Returned (mk_result mdl p url)"
  by (auto simp: attempt_body_def split: option.splits)

lemma attempt_body_no_image:
  "response_ok (status r) \<Longrightarrow> extractInline (partsResp r) = None \<Longrightarrow>
   extractText (partsResp r) = None \<Longrightarrow>
   attempt_body mdl p k (Responds r) = Thrown (NoImageData (blockReason r))"
  by (simp add: attempt_body_def)

text \<open>
  Every failure of the first or the second attempt, thrown or continued, is followed by
  the next attempt: the \<open>catch\<close> block rethrows only in the last iteration.
\<close>

lemma failed_attempt_is_followed:
  assumes "truthy_str (GEMINI_API_KEY e)"
    and "\<And>r. attempt_body (model_name e) (sysPrompt pc) 1 (api 1) \<noteq> Returned r"
  shows "take 3 (snd (generateOverlayedImage e api pc)) = [CallGemini 1, Delay 2000, CallGemini 2]"
proof -
  have two: "take 2 (snd (attempts mdl p api 2 le)) = [Delay 2000, CallGemini 2]" for mdl p le
    by (simp add: attempts_2 split: completion.splits)
  have three: "take 3 (x # xs) = x # take 2 xs" for x :: event and xs
    by (simp add: numeral_3_eq_3 numeral_2_eq_2)
  show ?thesis
    using assms
    by (cases "attempt_body (model_name e) (sysPrompt pc) 1 (api 1)")
       (auto simp add: generateOverlayedImage_def attempts_1 two three simp del: One_nat_def)
qed

lemmas sample_eval =
  sample_env_def image_part_def image_response_def empty_response_def error_response_def
  api_400_then_image_def api_empty_then_image_def api_503_503_image_def
  truthy_str_def model_name_def response_ok_def isRetryableError_def maxRetries_def
  accepts_def data_of_def mime_of_def inline_of_def

lemma sample_image_returned:
  "attempt_body mdl p k (Responds image_response) =
     Returned (mk_result mdl p ''data:image/png;base64,iVBORw0KGgo='')"
  by (simp add: attempt_body_def sample_eval)

text \<open>
  C1 on the code. The first answer has status 400, the second carries an image: the call
  does not fail at the first answer. It waits, calls again and succeeds.
\<close>

theorem status_400_is_retried:
  "generateOverlayedImage sample_env api_400_then_image None =
     (Inr (mk_result ''gemini-2.5-flash-image-preview'' (sysPrompt None)
             ''data:image/png;base64,iVBORw0KGgo=''),
      [CallGemini 1, Delay 2000, CallGemini 2])"
proof -
  have 1: "attempt_body mdl p 1 (api_400_then_image 1) = Thrown (ApiError 400 ''Bad Request'')"
    for mdl p
    by (simp add: attempt_body_def sample_eval)
  have 2: "attempt_body mdl p 2 (api_400_then_image 2) =
             Returned (mk_result mdl p ''data:image/png;base64,iVBORw0KGgo='')" for mdl p
    using sample_image_returned by (simp add: api_400_then_image_def)
  show ?thesis
    by (simp add: generateOverlayedImage_def attempts_1 attempts_2 1 2 del: One_nat_def)
       (simp add: sample_env_def truthy_str_def model_name_def)
qed

text \<open>
  C2 on the code. The first answer has status 200 and no image, the second carries an
  image: the call does not fail with the no-image error. It waits, calls again and succeeds.
\<close>

theorem empty_answer_is_retried:
  "generateOverlayedImage sample_env api_empty_then_image None =
     (Inr (mk_result ''gemini-2.5-flash-image-preview'' (sysPrompt None)
             ''data:image/png;base64,iVBORw0KGgo=''),
      [CallGemini 1, Delay 2000, CallGemini 2])"
proof -
  have 1: "attempt_body mdl p 1 (api_empty_then_image 1) = Thrown (NoImageData [])"
    for mdl p
    by (simp add: attempt_body_def sample_eval)
  have 2: "attempt_body mdl p 2 (api_empty_then_image 2) =
             Returned (mk_result mdl p ''data:image/png;base64,iVBORw0KGgo='')" for mdl p
    using sample_image_returned by (simp add: api_empty_then_image_def)
  show ?thesis
    by (simp add: generateOverlayedImage_def attempts_1 attempts_2 1 2 del: One_nat_def)
       (simp add: sample_env_def truthy_str_def model_name_def)
qed

text \<open>
  C4, as the code has it. After two answers with status 503 and a third with status 200
  and an image, the call succeeds at the third attempt; the delay before attempt 2 is
  2000 ms and the delay before attempt 3 is 4000 ms, 6000 ms in all.
\<close>

theorem backoff_503_503_200:
  assumes "truthy_str (GEMINI_API_KEY e)"
    and "api 1 = Responds r1" and "status r1 = 503"
    and "api 2 = Responds r2" and "status r2 = 503"
    and "api 3 = Responds r3" and "status r3 = 200"
    and "(case extractInline (partsResp r3) of Some u \<Rightarrow> Some u
          | None \<Rightarrow> extractText (partsResp r3)) = Some url"
  shows "generateOverlayedImage e api pc =
           (Inr (mk_result (model_name e) (sysPrompt pc) url),
            [CallGemini 1, Delay 2000, CallGemini 2, Delay 4000, CallGemini 3]) \<and>
         total_delay (snd (generateOverlayedImage e api pc)) = 6000"
proof -
  have 1: "attempt_body mdl p 1 (api 1) = Continued (ApiError 503 (responseText r1))" for mdl p
    using assms(2,3)
    by (simp add: attempt_body_error_status response_ok_def isRetryableError_def maxRetries_def)
  have 2: "attempt_body mdl p 2 (api 2) = Continued (ApiError 503 (responseText r2))" for mdl p
    using assms(4,5)
    by (simp add: attempt_body_error_status response_ok_def isRetryableError_def maxRetries_def)
  have 3: "attempt_body mdl p 3 (api 3) = Returned (mk_result mdl p url)" for mdl p
    using assms(6,7,8) attempt_body_image [of r3 url mdl p 3]
    by (simp add: response_ok_def)
  show ?thesis
    using assms(1)
    by (simp add: generateOverlayedImage_def attempts_1 attempts_2 attempts_3 1 2 3
          del: One_nat_def)
qed

theorem backoff_503_503_200_witness:
  "generateOverlayedImage sample_env api_503_503_image None =
     (Inr (mk_result ''gemini-2.5-flash-image-preview'' (sysPrompt None)
             ''data:image/png;base64,iVBORw0KGgo=''),
      [CallGemini 1, Delay 2000, CallGemini 2, Delay 4000, CallGemini 3]) \<and>
   total_delay (snd (generateOverlayedImage sample_env api_503_503_image None)) = 6000"
  using backoff_503_503_200 [of sample_env api_503_503_image
          "error_response 503 ''Service Unavailable''"
          "error_response 503 ''Service Unavailable''" image_response
          "''data:image/png;base64,iVBORw0KGgo=''" None]
  by (simp add: sample_eval)

text \<open>
  C4 as stated fails: in that scenario the delays are not 1000 ms and 2000 ms.
\<close>

theorem backoff_1000_2000_counterexample:
  "snd (generateOverlayedImage sample_env api_503_503_image None) =
     [CallGemini 1, Delay 2000, CallGemini 2, Delay 4000, CallGemini 3] \<and>
   snd (generateOverlayedImage sample_env api_503_503_image None) \<noteq>
     [CallGemini 1, Delay 1000, CallGemini 2, Delay 2000, CallGemini 3] \<and>
   total_delay (snd (generateOverlayedImage sample_env api_503_503_image None)) \<noteq> 1000 + 2000"
proof -
  have 1: "attempt_body mdl p 1 (api_503_503_image 1) =
             Continued (ApiError 503 ''Service Unavailable'')" for mdl p
    by (simp add: attempt_body_def sample_eval)
  have 2: "attempt_body mdl p 2 (api_503_503_image 2) =
             Continued (ApiError 503 ''Service Unavailable'')" for mdl p
    by (simp add: attempt_body_def sample_eval)
  have 3: "attempt_body mdl p 3 (api_503_503_image 3) =
             Returned (mk_result mdl p ''data:image/png;base64,iVBORw0KGgo='')" for mdl p
    using sample_image_returned by (simp add: api_503_503_image_def)
  have "snd (generateOverlayedImage sample_env api_503_503_image None) =
          [CallGemini 1, Delay 2000, CallGemini 2, Delay 4000, CallGemini 3]"
    by (simp add: generateOverlayedImage_def attempts_1 attempts_2 attempts_3 1 2 3
          del: One_nat_def)
       (simp add: sample_env_def truthy_str_def)
  then show ?thesis by simp
qed

subsection \<open>The image of an answer\<close>

lemma accepts_iff:
  "accepts part \<longleftrightarrow>
     (\<exists>d. data_of part = Some d \<and> d \<noteq> []) \<and>
     (mime_of part = None \<or> mime_of part = Some [] \<or>
      (\<exists>m. mime_of part = Some m \<and> str_includes m ''image/''))"
  by (auto simp: accepts_def truthy_str_def split: option.splits)

lemma extractInline_first:
  assumes "list_all (\<lambda>q. \<not> accepts q) pre" and "accepts part" and "data_of part = Some d"
  shows "extractInline (pre @ part # post) = Some (''data:image/png;base64,'' @ d)"
  using assms by (induction pre) (auto split: option.splits)

lemma extractInline_Some:
  "extractInline parts = Some url \<Longrightarrow>
   \<exists>part d. part \<in> set parts \<and> accepts part \<and> data_of part = Some d \<and>
            url = ''data:image/png;base64,'' @ d"
  by (induction parts) (auto split: option.splits if_splits)

lemma indexOf_Some: "indexOf t p = Some i \<Longrightarrow> startsWith (drop i t) p"
proof (induction t arbitrary: i)
  case Nil
  then show ?case by (simp split: if_splits)
next
  case (Cons c cs)
  show ?case
  proof (cases "startsWith (c # cs) p")
    case True
    with Cons.prems show ?thesis by simp
  next
    case False
    with Cons.prems obtain j where "indexOf cs p = Some j" and "i = Suc j"
      by auto
    with Cons.IH show ?thesis by simp
  qed
qed

lemma dropWhileEnd_keeps:
  assumes "a \<noteq> []" and "\<not> P (last a)"
  shows "\<exists>c. dropWhileEnd P (a @ b) = a @ c"
proof (cases "\<forall>x\<in>set (rev b). P x")
  case True
  then have "dropWhile P (rev b @ rev a) = dropWhile P (rev a)"
    by (intro dropWhile_append2) simp
  moreover have "dropWhile P (rev a) = rev a"
    using assms by (cases a rule: rev_cases) auto
  ultimately show ?thesis
    by (simp add: dropWhileEnd_def)
next
  case False
  then obtain x where "x \<in> set (rev b)" and "\<not> P x" by blast
  then have "dropWhile P (rev b @ rev a) = dropWhile P (rev b) @ rev a"
    by (rule dropWhile_append1)
  then show ?thesis
    by (simp add: dropWhileEnd_def)
qed

lemma extractText_Some:
  "extractText parts = Some url \<Longrightarrow> startsWith url ''data:image/png;base64,''"
proof (induction parts)
  case Nil
  then show ?case by simp
next
  case (Cons part rest)
  show ?case
  proof (cases "\<exists>t idx. p_text part = Some t \<and> t \<noteq> [] \<and>
                  indexOf t ''data:image/png;base64,'' = Some idx")
    case False
    with Cons show ?thesis
      by (auto split: option.splits if_splits)
  next
    case True
    then obtain t idx where t: "p_text part = Some t" "t \<noteq> []"
      and idx: "indexOf t ''data:image/png;base64,'' = Some idx" by blast
    from indexOf_Some [OF idx] obtain rest' where
      d: "drop idx t = ''data:image/png;base64,'' @ rest'"
      using startsWith_iff by blast
    have "dropWhile whiteSpace (drop idx t) = drop idx t"
      by (simp add: d whiteSpace_def)
    then have "trim (drop idx t) = dropWhileEnd whiteSpace (''data:image/png;base64,'' @ rest')"
      by (simp add: trim_def d)
    moreover obtain c where
      "dropWhileEnd whiteSpace (''data:image/png;base64,'' @ rest') = ''data:image/png;base64,'' @ c"
      using dropWhileEnd_keeps [of "''data:image/png;base64,''" whiteSpace rest']
      by (auto simp: whiteSpace_def)
    moreover obtain c' where
      "dropWhileEnd trailing_junk (''data:image/png;base64,'' @ c) = ''data:image/png;base64,'' @ c'"
      using dropWhileEnd_keeps [of "''data:image/png;base64,''" trailing_junk c]
      by (auto simp: trailing_junk_def)
    ultimately have "extractText (part # rest) = Some (''data:image/png;base64,'' @ c')"
      using t idx by (simp add: Let_def)
    with Cons.prems show ?thesis
      by (auto simp: startsWith_iff)
  qed
qed

lemma attempt_body_Returned:
  assumes "attempt_body mdl p k out = Returned r"
  shows "startsWith (dataUrl r) ''data:image/png;base64,''"
proof -
  from assms obtain resp where out: "out = Responds resp" and ok: "response_ok (status resp)"
    by (auto simp: attempt_body_def split: api_outcome.splits if_splits)
  show ?thesis
  proof (cases "extractInline (partsResp resp)")
    case (Some url)
    with assms out ok have "dataUrl r = url"
      by (auto simp: attempt_body_def mk_result_def)
    with extractInline_Some [OF Some] show ?thesis
      by (auto simp: startsWith_iff)
  next
    case None
    with assms out ok obtain url where "extractText (partsResp resp) = Some url"
      and "dataUrl r = url"
      by (auto simp: attempt_body_def mk_result_def split: option.splits)
    with extractText_Some show ?thesis by simp
  qed
qed

text \<open>A success of the call is what one of the three attempts returned.\<close>

lemma success_from_attempt:
  assumes "fst (generateOverlayedImage e api pc) = Inr r"
  shows "\<exists>k. 1 \<le> k \<and> k \<le> 3 \<and>
           attempt_body (model_name e) (sysPrompt pc) k (api k) = Returned r"
proof -
  from assms have key: "truthy_str (GEMINI_API_KEY e)"
    by (auto simp: generateOverlayedImage_def split: if_splits)
  let ?b = "\<lambda>k. attempt_body (model_name e) (sysPrompt pc) k (api k)"
  from assms key have "?b 1 = Returned r \<or> ?b 2 = Returned r \<or> ?b 3 = Returned r"
    by (simp add: generateOverlayedImage_def attempts_1 attempts_2 attempts_3
          del: One_nat_def split: completion.splits)
  then show ?thesis
  proof (elim disjE)
    assume "?b 1 = Returned r"
    then show ?thesis by (intro exI [of _ 1]) simp
  next
    assume "?b 2 = Returned r"
    then show ?thesis by (intro exI [of _ 2]) simp
  next
    assume "?b 3 = Returned r"
    then show ?thesis by (intro exI [of _ 3]) simp
  qed
qed

lemma success_is_png_data_url:
  assumes "fst (generateOverlayedImage e api pc) = Inr r"
  shows "startsWith (dataUrl r) ''data:image/png;base64,''"
  using success_from_attempt [OF assms] attempt_body_Returned by blast

text \<open>
  C9. Let the answer to attempt \<open>k\<close> have a success status, and let \<open>part\<close> be the first of
  its parts with non-empty data whose mime type is absent, empty or contains \<open>image/\<close>.
  If no earlier attempt returned, the call succeeds, and the \<open>dataUrl\<close> of its result is the
  data of that part behind the prefix \<open>data:image/png;base64,\<close>, whatever mime type the
  part declares.
\<close>

theorem inline_part_returned_as_png:
  assumes key: "truthy_str (GEMINI_API_KEY e)"
    and k: "k = 1 \<or> k = 2 \<or> k = 3"
    and earlier: "\<forall>j r. 1 \<le> j \<and> j < k \<longrightarrow>
                    attempt_body (model_name e) (sysPrompt pc) j (api j) \<noteq> Returned r"
    and answer: "api k = Responds resp" "response_ok (status resp)"
    and parts: "partsResp resp = pre @ part # post" "list_all (\<lambda>q. \<not> accepts q) pre"
    and data: "data_of part = Some d" "d \<noteq> []"
    and mime: "mime_of part = None \<or> mime_of part = Some [] \<or>
               (\<exists>m. mime_of part = Some m \<and> str_includes m ''image/'')"
  shows "\<exists>r. fst (generateOverlayedImage e api pc) = Inr r \<and>
             dataUrl r = ''data:image/png;base64,'' @ d \<and>
             startsWith (dataUrl r) ''data:image/png;base64,''"
proof -
  let ?b = "\<lambda>j. attempt_body (model_name e) (sysPrompt pc) j (api j)"
  let ?r = "mk_result (model_name e) (sysPrompt pc) (''data:image/png;base64,'' @ d)"
  have "accepts part"
    using data mime by (auto simp: accepts_iff)
  then have "extractInline (partsResp resp) = Some (''data:image/png;base64,'' @ d)"
    using parts data(1) by (simp add: extractInline_first)
  then have ret: "?b k = Returned ?r"
    using answer by (simp add: attempt_body_image)
  have gen: "fst (generateOverlayedImage e api pc) =
               fst (attempts (model_name e) (sysPrompt pc) api 1 None)"
    using key by (simp add: generateOverlayedImage_def)
  from k consider "k = 1" | "k = 2" | "k = 3" by blast
  then have res: "fst (generateOverlayedImage e api pc) = Inr ?r"
  proof cases
    case 1
    with ret show ?thesis
      by (simp add: gen attempts_1 del: One_nat_def)
  next
    case 2
    with earlier have "\<forall>r. ?b 1 \<noteq> Returned r" by simp
    with ret 2 show ?thesis
      by (cases "?b 1") (simp_all add: gen attempts_1 attempts_2 del: One_nat_def)
  next
    case 3
    with earlier have "\<forall>r. ?b 1 \<noteq> Returned r" and "\<forall>r. ?b 2 \<noteq> Returned r" by simp_all
    with ret 3 show ?thesis
      by (cases "?b 1"; cases "?b 2")
         (simp_all add: gen attempts_1 attempts_2 attempts_3 del: One_nat_def)
  qed
  have url: "dataUrl ?r = ''data:image/png;base64,'' @ d"
    by (simp add: mk_result_def)
  have "startsWith (''data:image/png;base64,'' @ d) ''data:image/png;base64,''"
    unfolding startsWith_iff by blast
  with res url show ?thesis
    by (intro exI [of _ ?r]) simp
qed

theorem inline_part_returned_as_png_witness:
  "\<exists>r. fst (generateOverlayedImage sample_env api_503_503_image None) = Inr r \<and>
       dataUrl r = ''data:image/png;base64,iVBORw0KGgo='' \<and>
       startsWith (dataUrl r) ''data:image/png;base64,''"
proof -
  have "attempt_body mdl p j (api_503_503_image j) \<noteq> Returned r" if "j < 3" for mdl p j r
    using that by (simp add: attempt_body_def sample_eval)
  then show ?thesis
    using inline_part_returned_as_png [of sample_env 3 None api_503_503_image image_response
            "[]" image_part "[]" "''iVBORw0KGgo=''"]
    by (simp add: sample_eval)
qed

section \<open>Properties of the route\<close>

subsection \<open>The allow-list\<close>

lemma unset_allow_list_rejects:
  assumes "CHROME_EXTENSION_IDS e = None"
  shows "validateExtension e req =
           Rejected (ErrorJson 403 ''Extension not authorized'' ''INVALID_EXTENSION_ID'' None)"
    and "tryon_route e w req =
           (ErrorJson 403 ''Extension not authorized'' ''INVALID_EXTENSION_ID'' None, [])"
  using assms by (simp_all add: validateExtension_def tryon_route_def Let_def)

lemma empty_allow_list_admits:
  assumes "CHROME_EXTENSION_IDS e = Some []"
  shows "validateExtension e req =
           (if \<not> truthy (extensionId (body req)) \<and> header_extension_id req = Some []
            then Next (Str [])
            else Rejected (ErrorJson 403 ''Extension not authorized'' ''INVALID_EXTENSION_ID'' None))"
proof (cases "truthy (extensionId (body req))")
  case True
  then have "extensionId (body req) \<noteq> Str []" by auto
  with True assms show ?thesis
    by (simp add: validateExtension_def Let_def js_or_def)
next
  case False
  with assms show ?thesis
    by (cases "header_extension_id req")
       (auto simp: validateExtension_def Let_def js_or_def)
qed

text \<open>
  C10 on the code. With \<open>CHROME_EXTENSION_IDS\<close> set to the empty string, a request whose
  \<open>x-mm-extension-id\<close> header is empty passes the middleware, and the handler answers it
  (here with 400: the body has no user image).
\<close>

theorem empty_allow_list_admits_empty_id:
  "validateExtension (sample_env\<lparr>CHROME_EXTENSION_IDS := Some []\<rparr>) request_empty_id
     = Next (Str []) \<and>
   tryon_route (sample_env\<lparr>CHROME_EXTENSION_IDS := Some []\<rparr>) sample_world request_empty_id
     = (ErrorJson 400 ''userImage must be a data URI'' ''INVALID_USER_IMAGE'' None, [])"
proof -
  have "validateExtension (sample_env\<lparr>CHROME_EXTENSION_IDS := Some []\<rparr>) request_empty_id
          = Next (Str [])"
    by (simp add: validateExtension_def Let_def js_or_def sample_env_def request_empty_id_def
          blank_body_def)
  moreover have "tryon e sample_world request_empty_id =
      (ErrorJson 400 ''userImage must be a data URI'' ''INVALID_USER_IMAGE'' None, [])" for e
    by (simp add: tryon_def tryon_try_def request_empty_id_def blank_body_def
          MAX_REQUEST_SIZE_def studio_image_def starts_with_data_def)
  ultimately show ?thesis
    by (simp add: tryon_route_def)
qed

subsection \<open>The overlay images\<close>

lemma filter_Boolean_map:
  "filter_Boolean (map f xs) = map (\<lambda>x. the (f x)) (filter (\<lambda>x. f x \<noteq> None) xs)"
  by (induction xs) (auto split: option.splits)

text \<open>
  In the main handler an entry of \<open>overlayData\<close> that does not parse is left out, and
  the entries that parse stay in their order, duplicates included.
\<close>

lemma overlay_failures_dropped:
  assumes "overlayData b = Arr ds" and "ds \<noteq> []"
  shows "fst (resolveOverlays w b) =
           map (\<lambda>d. toInlinePart (projr (parseDataUri d)))
             (filter (\<lambda>d. \<not> isl (parseDataUri d)) (take 3 ds))"
proof -
  have "filter_Boolean (map decodeOne xs) =
          map (\<lambda>d. toInlinePart (projr (parseDataUri d)))
            (filter (\<lambda>d. \<not> isl (parseDataUri d)) xs)" for xs
    by (induction xs) (auto simp: decodeOne_def split: sum.splits)
  with assms show ?thesis
    by (simp add: resolveOverlays_def nonempty_array_def)
qed

lemma all_failures_resolve_to_nothing:
  assumes "overlayData b = Arr ds" and "ds \<noteq> []"
    and "list_all (\<lambda>d. isl (parseDataUri d)) (take 3 ds)"
  shows "resolveOverlays w b = ([], [])"
proof -
  have "list_all (\<lambda>d. isl (parseDataUri d)) xs \<Longrightarrow> filter_Boolean (map decodeOne xs) = []" for xs
    by (induction xs) (auto simp: decodeOne_def split: sum.splits)
  with assms show ?thesis
    by (simp add: resolveOverlays_def nonempty_array_def)
qed

lemma parse_ok_starts_with_data:
  assumes "parseDataUri v = Inr p"
  shows "starts_with_data name v = Inr True"
proof -
  from assms obtain s where v: "v = Str s"
    by (cases v) (auto simp: parseDataUri_def)
  with assms obtain g where "match_data_uri s = Some g"
    by (auto simp: parseDataUri_def split: if_splits option.splits)
  then have "startsWith s ''data:''"
    by (auto simp: match_data_uri_def split: if_splits)
  with v show ?thesis
    by (simp add: starts_with_data_def)
qed

lemma attempts_events:
  "set (snd (attempts mdl p api 1 le)) \<subseteq> range Delay \<union> range CallGemini"
proof -
  have 3: "set (snd (attempts mdl p api 3 le)) \<subseteq> range Delay \<union> range CallGemini" for le
    by (auto simp: attempts_3 split: completion.splits)
  have 2: "set (snd (attempts mdl p api 2 le)) \<subseteq> range Delay \<union> range CallGemini" for le
    using 3 by (auto simp: attempts_2 split: completion.splits)
  show ?thesis
    using 2 by (auto simp add: attempts_1 simp del: One_nat_def split: completion.splits)
qed

lemma generate_events:
  "set (snd (generateOverlayedImage e api pc)) \<subseteq> range Delay \<union> range CallGemini"
  using attempts_events by (simp add: generateOverlayedImage_def del: One_nat_def)

lemma generate_step_events:
  assumes "generate_step (gemini_client e w) b u os = (res, evs)"
  shows "set evs \<subseteq> range Delay \<union> range CallGemini"
  using generate_events [of e "gemini w" "productContext b"] assms
  by (auto simp: generate_step_def gemini_client_def split: prod.splits sum.splits if_splits)

lemma studio_image_events:
  assumes "studio_image w b = (img, evs)"
  shows "set evs \<subseteq> range ReadStudio"
  using assms by (auto simp: studio_image_def split: option.splits if_splits)

text \<open>
  C6. When \<open>overlayData\<close> is a non-empty array, the resolution of the overlay images is the
  same for every \<open>overlayUrls\<close> and every behaviour of the overlay fetch, and it fetches
  nothing. So is the answer of the main handler with its trace, for two requests that
  differ in \<open>overlayUrls\<close>, and with it in the length of the serialised body, as long as
  the two lengths are on the same side of the size limit; and the trace holds no overlay
  fetch. If moreover the request is within the size limit, the user image parses and none
  of the first three entries of \<open>overlayData\<close> parses, the answer is 422 with code
  \<open>NO_OVERLAY_IMAGES\<close>.
\<close>

theorem overlay_urls_never_consulted:
  assumes "overlayData (body req) = Arr ds" and "ds \<noteq> []"
  shows "resolveOverlays (w\<lparr>fetchOverlay := f\<rparr>) ((body req)\<lparr>overlayUrls := us\<rparr>)
           = resolveOverlays w (body req) \<and>
         snd (resolveOverlays w (body req)) = [] \<and>
         ((n > MAX_REQUEST_SIZE) = (bodySize req > MAX_REQUEST_SIZE) \<longrightarrow>
          tryon e (w\<lparr>fetchOverlay := f\<rparr>)
            (req\<lparr>body := (body req)\<lparr>overlayUrls := us\<rparr>, bodySize := n\<rparr>)
            = tryon e w req) \<and>
         FetchOverlay u \<notin> set (snd (tryon e w req)) \<and>
         (bodySize req \<le> MAX_REQUEST_SIZE \<and>
          parseDataUri (fst (studio_image w (body req))) = Inr up \<and>
          list_all (\<lambda>d. isl (parseDataUri d)) (take 3 ds)
          \<longrightarrow> fst (tryon e w req) =
                ErrorJson 422 ''No valid overlay images provided'' ''NO_OVERLAY_IMAGES'' None)"
proof (intro conjI impI)
  show ro: "resolveOverlays (w\<lparr>fetchOverlay := f\<rparr>) ((body req)\<lparr>overlayUrls := us\<rparr>)
              = resolveOverlays w (body req)"
    using assms by (simp add: resolveOverlays_def nonempty_array_def)
  show "snd (resolveOverlays w (body req)) = []"
    using assms by (simp add: resolveOverlays_def nonempty_array_def)
  assume size: "(n > MAX_REQUEST_SIZE) = (bodySize req > MAX_REQUEST_SIZE)"
  have si: "studio_image (w\<lparr>fetchOverlay := f\<rparr>) ((body req)\<lparr>overlayUrls := us\<rparr>)
              = studio_image w (body req)"
    by (simp add: studio_image_def split: option.splits)
  have gs: "generate_step (gemini_client e (w\<lparr>fetchOverlay := f\<rparr>))
              ((body req)\<lparr>overlayUrls := us\<rparr>) x os
              = generate_step (gemini_client e w) (body req) x os" for x os
    by (simp add: generate_step_def gemini_client_def)
  have "tryon_try e (w\<lparr>fetchOverlay := f\<rparr>)
          (req\<lparr>body := (body req)\<lparr>overlayUrls := us\<rparr>, bodySize := n\<rparr>)
          = tryon_try e w req"
    using size
    by (simp add: tryon_try_def ro si gs
          cong: prod.case_cong sum.case_cong bool.case_cong)
  then show "tryon e (w\<lparr>fetchOverlay := f\<rparr>)
          (req\<lparr>body := (body req)\<lparr>overlayUrls := us\<rparr>, bodySize := n\<rparr>)
          = tryon e w req"
    by (simp add: tryon_def)
next
  have ro: "snd (resolveOverlays w (body req)) = []"
    using assms by (simp add: resolveOverlays_def nonempty_array_def)
  have "set (snd (tryon_try e w req)) \<subseteq> range ReadStudio \<union> range Delay \<union> range CallGemini"
    using ro
    by (auto simp: tryon_try_def split: prod.splits sum.splits bool.splits if_splits
          dest!: studio_image_events generate_step_events)
  moreover have "snd (tryon e w req) = snd (tryon_try e w req)"
    by (simp add: tryon_def split: prod.splits sum.splits)
  ultimately show "FetchOverlay u \<notin> set (snd (tryon e w req))"
    by auto
next
  assume a: "bodySize req \<le> MAX_REQUEST_SIZE \<and>
          parseDataUri (fst (studio_image w (body req))) = Inr up \<and>
          list_all (\<lambda>d. isl (parseDataUri d)) (take 3 ds)"
  obtain img ev1 where si: "studio_image w (body req) = (img, ev1)"
    by (cases "studio_image w (body req)")
  with a have up: "parseDataUri img = Inr up" by simp
  then have sw: "starts_with_data ''actualUserImage'' img = Inr True"
    by (rule parse_ok_starts_with_data)
  have ro: "resolveOverlays w (body req) = ([], [])"
    using assms a all_failures_resolve_to_nothing by blast
  show "fst (tryon e w req) =
      ErrorJson 422 ''No valid overlay images provided'' ''NO_OVERLAY_IMAGES'' None"
    using a by (simp add: tryon_def tryon_try_def si up sw ro generate_step_def)
qed

lemmas request_eval =
  request_bad_overlay_def request_urls_only_def request_one_bad_overlay_def blank_body_def
  sample_world_def MAX_REQUEST_SIZE_def studio_image_def starts_with_data_def

theorem overlay_urls_never_consulted_witness:
  "resolveOverlays (sample_world\<lparr>fetchOverlay := (\<lambda>url. FetchThrows)\<rparr>)
      ((body request_bad_overlay)\<lparr>overlayUrls := Arr []\<rparr>)
     = resolveOverlays sample_world (body request_bad_overlay) \<and>
   snd (resolveOverlays sample_world (body request_bad_overlay)) = [] \<and>
   tryon sample_env (sample_world\<lparr>fetchOverlay := (\<lambda>url. FetchThrows)\<rparr>)
      (request_bad_overlay\<lparr>body := (body request_bad_overlay)\<lparr>overlayUrls := Arr []\<rparr>,
                            bodySize := 146\<rparr>)
     = tryon sample_env sample_world request_bad_overlay \<and>
   FetchOverlay (Str ''https://shop.example/p.png'')
     \<notin> set (snd (tryon sample_env sample_world request_bad_overlay)) \<and>
   fst (tryon sample_env sample_world request_bad_overlay) =
     ErrorJson 422 ''No valid overlay images provided'' ''NO_OVERLAY_IMAGES'' None"
  using overlay_urls_never_consulted [where req = request_bad_overlay
          and ds = "[Str ''not a data uri'']" and e = sample_env and w = sample_world
          and f = "\<lambda>url. FetchThrows" and us = "Arr []" and n = 146
          and u = "Str ''https://shop.example/p.png''"
          and up = "\<lparr>mimeType = ''image/jpeg'', base64 = ''/9j/4AAQ''\<rparr>"]
  by (simp add: request_eval parse_eval)

text \<open>Without inline overlays the same request fetches the URL and goes on to the API.\<close>

lemma urls_are_the_fallback:
  "snd (tryon sample_env sample_world request_urls_only) =
     [FetchOverlay (Str ''https://shop.example/p.png''), CallGemini 1] \<and>
   status_of (fst (tryon sample_env sample_world request_urls_only)) = 200"
proof -
  have "attempt_body mdl p 1 (Responds image_response) =
          Returned (mk_result mdl p ''data:image/png;base64,iVBORw0KGgo='')" for mdl p
    by (rule sample_image_returned)
  then have "generateOverlayedImage sample_env (\<lambda>n. Responds image_response) None =
          (Inr (mk_result (model_name sample_env) (sysPrompt None)
                  ''data:image/png;base64,iVBORw0KGgo=''), [CallGemini 1])"
    by (simp add: generateOverlayedImage_def attempts_1 del: One_nat_def)
       (simp add: sample_env_def truthy_str_def)
  then show ?thesis
    by (simp add: tryon_def tryon_try_def request_eval parse_eval resolveOverlays_def
          nonempty_array_def fetchOne_def response_ok_def generate_step_def gemini_client_def)
qed

text \<open>
  C7 on the code. The second variant of the handler maps the entries without catching:
  with one entry that parses and one that does not, the request fails with 400, where the
  main handler resolves the entry that parses.
\<close>

theorem simple_handler_fails_whole_batch:
  "tryon_simple sample_env (gemini_client sample_env sample_world) sample_world
      request_one_bad_overlay
     = (ErrorJson 400 ''Invalid data URI format'' ''INVALID_IMAGE_FORMAT'' None, []) \<and>
   fst (resolveOverlays sample_world (body request_one_bad_overlay))
     = [\<lparr>ip_mimeType = ''image/png'', ip_data = ''iVBORw0KGgo=''\<rparr>]"
  by (simp add: tryon_simple_def tryon_simple_try_def tryon_simple_catch_def
        resolveOverlays_simple_def resolveOverlays_def nonempty_array_def decodeOne_def
        toInlinePart_def request_eval parse_eval)

end
